theory Spec2Isabelle
  imports Main
begin

text \<open>
  A shallow embedding of the ksqldb Go client: the construction of the client and its
  \<open>Do\<close> (client.go), and the response handle with its reader task and its two ways of
  consuming the body, \<open>ReadStreaming\<close> and \<open>ReadAll\<close> (response.go). The reader task and its
  consumer meet on two unbuffered pipes, so a run is one sequence of events in the order
  of the task's program; the consumer is a function of that sequence. The moment at which
  the task finds its scope canceled is an input of the model.
\<close>

section \<open>Byte sequences and errors\<close>

text \<open>
  A Go byte slice is a list of 8-bit characters. A nil slice and an empty slice both have
  length zero and the code only ever asks for the length, so both are the empty list.
\<close>

type_synonym bytes = string

text \<open>
  Go error values. The sentinels the code compares against are constructors of their own;
  \<open>Errorf\<close> is an error made by \<open>fmt.Errorf\<close> without \<open>%w\<close> (or any other error that
  wraps nothing), identified by its message; \<open>Wrapf prefix e\<close> is
  \<open>fmt.Errorf(prefix + ": %w", e)\<close>.
\<close>

datatype error =
    io_EOF
  | context_Canceled
  | context_DeadlineExceeded
  | bufio_ErrTooLong
  | Errorf string
  | Wrapf string error

text \<open>\<open>errors.Is\<close>: the error itself or anything on its chain of wrapped errors.\<close>

fun errors_Is :: "error \<Rightarrow> error \<Rightarrow> bool" where
  "errors_Is (Wrapf p e) target = (Wrapf p e = target \<or> errors_Is e target)"
| "errors_Is e target = (e = target)"

text \<open>\<open>isOneOf\<close> (response.go): the loop over the candidate errors.\<close>

fun isOneOf :: "error \<Rightarrow> error list \<Rightarrow> bool" where
  "isOneOf e [] = False"
| "isOneOf e (err # errs) = (if errors_Is e err then True else isOneOf e errs)"

section \<open>The client (client.go)\<close>

text \<open>The fields of \<open>url.URL\<close> the client looks at.\<close>

record url =
  Scheme :: string
  Host :: string
  Path :: string

text \<open>
  A cancellation scope: the background scope, a scope supplied by the caller, or the child
  that \<open>context.WithCancel\<close> derives from a parent.
\<close>

datatype scope = Background | Supplied nat | WithCancel scope

record http_request =
  Method :: string
  URL :: string
  Payload :: bytes
  ReqContext :: "scope option"
  ReqTraced :: bool

text \<open>
  A response body: the bytes the server sends and the error on which the underlying reader
  ends (\<open>io_EOF\<close> for a clean end of stream).
\<close>

record body =
  content :: bytes
  ending :: error

record http_response =
  StatusCode :: nat
  Body :: body

text \<open>
  \<open>ClientTrace\<close>: whether the embedded \<open>httptrace.ClientTrace\<close> is set and which of the two
  hooks are registered.
\<close>

record client_trace =
  ClientTrace :: bool
  RequestPrepared :: bool
  ResponseDelivered :: bool

record client_options =
  OptURL :: string
  OptTrace :: "client_trace option"
  OptContext :: "scope option"

record transport =
  DisableCompression :: bool

record client =
  ctx :: scope
  serverURL :: url
  httpClient :: transport
  httpTrace :: "client_trace option"

text \<open>
  \<open>parseServerURL\<close>. \<open>url.Parse\<close> belongs to the Go standard library, so it is the
  parameter \<open>parse\<close>.
\<close>

definition parseServerURL :: "(string \<Rightarrow> error + url) \<Rightarrow> string \<Rightarrow> error + url" where
  "parseServerURL parse rawURL =
     (case parse rawURL of
        Inl err \<Rightarrow> Inl err
      | Inr uu \<Rightarrow>
          if Scheme uu = '''' then Inl (Errorf (''url '' @ rawURL @ '' missing scheme''))
          else if Path uu \<noteq> '''' \<and> Path uu \<noteq> ''/''
            then Inl (Errorf (''url '' @ rawURL @ '' should not contain path''))
          else Inr uu)"

definition newTransportFromDefault :: transport where
  "newTransportFromDefault = \<lparr>DisableCompression = False\<rparr>"

definition NewClient :: "(string \<Rightarrow> error + url) \<Rightarrow> client_options \<Rightarrow> error + client" where
  "NewClient parse opts =
     (let transport = newTransportFromDefault\<lparr>DisableCompression := True\<rparr> in
      case parseServerURL parse (OptURL opts) of
        Inl err \<Rightarrow> Inl (Wrapf ''initializing ksqldb client'' err)
      | Inr su \<Rightarrow>
          Inr \<lparr>ctx = (case OptContext opts of None \<Rightarrow> Background | Some c \<Rightarrow> c),
               serverURL = su,
               httpClient = transport,
               httpTrace = OptTrace opts\<rparr>)"

section \<open>The response handle (response.go)\<close>

text \<open>A pipe (Go channel) is known by the number of its allocation.\<close>

datatype chan = Chan nat

text \<open>
  What the reader task does on the two pipes, in program order: a scan of the body, a send
  on the data pipe, a send on the error pipe, and the two closes.
\<close>

datatype event =
    Scanned
  | SendData bytes
  | SendErr error
  | CloseData
  | CloseErr

text \<open>
  \<open>Response\<close>. The embedded \<open>*http.Response\<close>, \<open>Context\<close> and \<open>cancelFunc\<close> are \<open>None\<close>
  when nil; the cancel function is known by the scope it cancels. \<open>once\<close> is the state of
  the \<open>sync.Once\<close>. Three fields are not in the Go struct and record what the code does to
  the world: \<open>canceled\<close> (the handle's scope has been canceled), \<open>tasks\<close> (reader tasks
  started so far) and \<open>pending\<close> (what the running reader task still has to do on the
  pipes).
\<close>

record response =
  Response :: "http_response option"
  Context :: "scope option"
  cancelFunc :: "scope option"
  once :: bool
  dataCh :: "chan option"
  errCh :: "chan option"
  canceled :: bool
  tasks :: nat
  pending :: "event list"

definition nil_response :: response where
  "nil_response = \<lparr>Response = None, Context = None, cancelFunc = None, once = False,
     dataCh = None, errCh = None, canceled = False, tasks = 0, pending = []\<rparr>"

text \<open>
  \<open>WithClientConfig\<close>: the request carries the scope, and the low-level trace when one is
  configured.
\<close>

definition WithClientConfig :: "client \<Rightarrow> scope \<Rightarrow> http_request \<Rightarrow> http_request" where
  "WithClientConfig cc c req =
     (case httpTrace cc of
        Some trace \<Rightarrow>
          if ClientTrace trace then req\<lparr>ReqContext := Some c, ReqTraced := True\<rparr>
          else req\<lparr>ReqContext := Some c\<rparr>
      | None \<Rightarrow> req\<lparr>ReqContext := Some c\<rparr>)"

datatype hook_call =
    CallRequestPrepared http_request
  | CallResponseDelivered "http_response option" "error option"

text \<open>
  \<open>Client.Do\<close>. The resource's \<open>Request\<close> method and the round trip of the HTTP client are
  parameters. The result is Go's pair (handle, error), with the hook invocations in order.
\<close>

definition Do ::
  "client \<Rightarrow> (url \<Rightarrow> error + http_request) \<Rightarrow> (http_request \<Rightarrow> error + http_response)
     \<Rightarrow> response option \<times> error option \<times> hook_call list" where
  "Do cc resource roundtrip =
     (case resource (serverURL cc) of
        Inl err \<Rightarrow> (None, Some (Wrapf ''sending ksql request'' err), [])
      | Inr req \<Rightarrow>
          let c = WithCancel (ctx cc);
              cancel = c;
              trace = httpTrace cc;
              h1 = (case trace of
                      Some t \<Rightarrow> if RequestPrepared t then [CallRequestPrepared req] else []
                    | None \<Rightarrow> []);
              result = roundtrip (WithClientConfig cc c req);
              resp = (case result of Inl _ \<Rightarrow> None | Inr r \<Rightarrow> Some r);
              err = (case result of Inl e \<Rightarrow> Some e | Inr _ \<Rightarrow> None);
              h2 = (case trace of
                      Some t \<Rightarrow>
                        if ResponseDelivered t then [CallResponseDelivered resp err] else []
                    | None \<Rightarrow> [])
          in case result of
               Inl e \<Rightarrow>
                 (Some (nil_response\<lparr>cancelFunc := Some cancel\<rparr>),
                  Some (Wrapf ''sending ksql request'' e), h1 @ h2)
             | Inr r \<Rightarrow>
                 (Some (nil_response\<lparr>Response := Some r, Context := Some c,
                                      cancelFunc := Some cancel\<rparr>),
                  None, h1 @ h2))"

section \<open>The line scanner of the Go library\<close>

text \<open>
  \<open>bufio.Scanner\<close> with its default split function \<open>ScanLines\<close> and its default
  buffer belongs to the Go standard library; this is its documented behaviour. A unit is
  a line without its end-of-line marker (a newline, with one carriage return before it
  dropped); the last line is a unit also when no newline ends it; a line that does not
  fit the buffer of \<open>MaxScanTokenSize\<close> bytes ends the scan with \<open>ErrTooLong\<close>. The reader
  is taken to report its end in a read of its own, after the last byte.
\<close>

definition MaxScanTokenSize :: nat where
  "MaxScanTokenSize = 64 * 1024"

record scanner =
  unread :: bytes
  src_end :: error
  tok :: bytes
  scan_err :: "error option"

definition NewScanner :: "body \<Rightarrow> scanner" where
  "NewScanner b = \<lparr>unread = content b, src_end = ending b, tok = [], scan_err = None\<rparr>"

definition dropCR :: "bytes \<Rightarrow> bytes" where
  "dropCR data = (if data \<noteq> [] \<and> last data = CHR 0x0D then butlast data else data)"

text \<open>
  \<open>Scan\<close>: the next unit, if there is one. A failing scan at the end of the input leaves
  no unit; one that fails with \<open>ErrTooLong\<close> leaves the unit of the scan before (in Go a
  slice of the buffer, whose bytes a later read may have overwritten).
\<close>

definition Scan :: "scanner \<Rightarrow> bool \<times> scanner" where
  "Scan s =
     (let data = unread s; line = takeWhile (\<lambda>c. c \<noteq> CHR 0x0A) data in
      if data = [] then (False, s\<lparr>tok := [], scan_err := Some (src_end s)\<rparr>)
      else if MaxScanTokenSize \<le> length line
        then (False, s\<lparr>scan_err := Some bufio_ErrTooLong\<rparr>)
      else if length line < length data
        then (True, s\<lparr>unread := drop (Suc (length line)) data, tok := dropCR line\<rparr>)
      else (True, s\<lparr>unread := [], tok := dropCR line, scan_err := Some (src_end s)\<rparr>))"

definition Bytes :: "scanner \<Rightarrow> bytes" where
  "Bytes s = tok s"

text \<open>\<open>Err\<close>: the first error other than \<open>io.EOF\<close>.\<close>

definition Err :: "scanner \<Rightarrow> error option" where
  "Err s = (case scan_err s of
              None \<Rightarrow> None
            | Some e \<Rightarrow> if e = io_EOF then None else Some e)"

lemma Scan_consumes: "Scan s = (True, s') \<Longrightarrow> length (unread s') < length (unread s)"
  by (auto simp: Scan_def Let_def split: if_splits)

section \<open>The reader task (response.go)\<close>

definition apiDataDelimiter :: bytes where
  "apiDataDelimiter = ''\<newline>''"

text \<open>
  \<open>filterSendDataChannel\<close>: the send on the data pipe, or nothing. The test for nil and the
  test for length zero are the same test here.
\<close>

definition filterSendDataChannel :: "bytes \<Rightarrow> event list" where
  "filterSendDataChannel byt =
     (if byt \<noteq> [] \<and> length byt \<noteq> 0 \<and> byt \<noteq> apiDataDelimiter then [SendData byt] else [])"

text \<open>
  The goroutine of \<open>initAsyncRead\<close>. \<open>done i\<close> tells whether the handle's scope is found
  canceled at the check that opens iteration \<open>i\<close> of the loop: the \<open>select\<close> has a default
  branch, so it takes the cancellation branch exactly when the scope is canceled by then.
  The pipes are unbuffered, so what the task does is one sequence of events, and each send
  waits for its receiver.
\<close>

function reader_task :: "(nat \<Rightarrow> bool) \<Rightarrow> nat \<Rightarrow> scanner \<Rightarrow> event list" where
  "reader_task done i s =
     (if done i then [SendErr context_Canceled, CloseData, CloseErr]
      else
        (let (ok, s') = Scan s in
         if \<not> ok then
           Scanned #
           [SendErr (case Err s' of None \<Rightarrow> io_EOF | Some err \<Rightarrow> err)] @
           filterSendDataChannel (Bytes s') @
           [CloseData, CloseErr]
         else Scanned # filterSendDataChannel (Bytes s') @ reader_task done (Suc i) s'))"
  by pat_completeness auto
termination
  by (relation "measure (\<lambda>(d, i, s). length (unread s))") (auto dest: Scan_consumes [OF sym])

section \<open>Consuming the stream (response.go)\<close>

text \<open>
  How a call ends: it returns, it panics, or the model fixes no return for it. The last is
  a receive that blocks for ever (no sender is left), or a \<open>select\<close> over a closed pipe,
  where Go picks among the ready cases at random.
\<close>

datatype 'a outcome = Returns 'a | Panics | NoReturn

text \<open>\<open>Cancel\<close> calls \<open>cancelFunc\<close>; calling a nil function panics.\<close>

definition Cancel :: "response \<Rightarrow> response outcome" where
  "Cancel rr = (case cancelFunc rr of
                  None \<Rightarrow> Panics
                | Some c \<Rightarrow> Returns (rr\<lparr>canceled := True\<rparr>))"

text \<open>
  \<open>initAsyncRead\<close>: the two pipes are made, then \<open>rr.Response.Body\<close> is read, which panics
  on a nil \<open>Response\<close>; the task's first check reads \<open>rr.Context.Done()\<close>, which panics on a
  nil \<open>Context\<close>. \<open>ext i\<close> tells whether someone outside has canceled the scope by the check
  of iteration \<open>i\<close>.
\<close>

definition initAsyncRead :: "(nat \<Rightarrow> bool) \<Rightarrow> response \<Rightarrow> response outcome" where
  "initAsyncRead ext rr =
     (let rr1 = rr\<lparr>dataCh := Some (Chan (2 * tasks rr)),
                   errCh := Some (Chan (2 * tasks rr + 1))\<rparr>
      in case Response rr1 of
           None \<Rightarrow> Panics
         | Some resp \<Rightarrow>
             let scanner = NewScanner (Body resp)
             in case Context rr1 of
                  None \<Rightarrow> Panics
                | Some c \<Rightarrow>
                    Returns (rr1\<lparr>tasks := Suc (tasks rr1),
                                 pending := reader_task (\<lambda>i. canceled rr1 \<or> ext i) 0 scanner\<rparr>))"

text \<open>\<open>Read\<close>: \<open>once.Do\<close> runs \<open>initAsyncRead\<close> on the first call only.\<close>

definition Read ::
  "(nat \<Rightarrow> bool) \<Rightarrow> response \<Rightarrow> (response \<times> chan option \<times> chan option) outcome" where
  "Read ext rr =
     (if once rr then Returns (rr, dataCh rr, errCh rr)
      else case initAsyncRead ext rr of
             Returns rr' \<Rightarrow> Returns (rr'\<lparr>once := True\<rparr>, dataCh rr', errCh rr')
           | Panics \<Rightarrow> Panics
           | NoReturn \<Rightarrow> NoReturn)"

text \<open>
  \<open>newBuffer\<close>: \<open>bytes.NewBuffer\<close> takes its argument as the initial contents of the
  buffer, and \<open>make([]byte, bytes.MinRead)\<close> is a slice of \<open>bytes.MinRead = 512\<close> zero bytes.
\<close>

definition bytes_MinRead :: nat where
  "bytes_MinRead = 512"

definition newBuffer :: bytes where
  "newBuffer = replicate bytes_MinRead (CHR 0x00)"

text \<open>\<open>bytes.Buffer.Write\<close> appends and returns a nil error.\<close>

definition Buffer_Write :: "bytes \<Rightarrow> bytes \<Rightarrow> bytes \<times> error option" where
  "Buffer_Write buf byt = (buf @ byt, None)"

definition writeToBuffer :: "bytes \<Rightarrow> bytes \<Rightarrow> bytes \<times> error option" where
  "writeToBuffer byt buf =
     (let (buf', err) = Buffer_Write buf byt
      in (buf', map_option (Wrapf ''writing response into buffer'') err))"

text \<open>
  \<open>drainDataToBytes\<close>: the \<open>range\<close> over the data pipe receives until the pipe is closed.
  It blocks for ever when the task ends, or waits on the error pipe, before closing the
  data pipe.
\<close>

fun drain_loop :: "bytes \<Rightarrow> error option \<Rightarrow> event list \<Rightarrow> (bytes \<times> error option \<times> event list) outcome" where
  "drain_loop buf err [] = NoReturn"
| "drain_loop buf err (SendData byt # evs) =
     (let (buf', err') = writeToBuffer byt buf in drain_loop buf' err' evs)"
| "drain_loop buf err (CloseData # evs) = Returns (buf, err, evs)"
| "drain_loop buf err (SendErr e # evs) = NoReturn"
| "drain_loop buf err (Scanned # evs) = drain_loop buf err evs"
| "drain_loop buf err (CloseErr # evs) = drain_loop buf err evs"

definition drainDataToBytes :: "event list \<Rightarrow> (bytes \<times> error option \<times> event list) outcome" where
  "drainDataToBytes evs = drain_loop newBuffer None evs"

text \<open>
  What a call of \<open>ReadStreaming\<close> leaves: its return value, the handler's state, the
  handle, and two observations the Go code does not return, the arguments of the handler
  invocations in order and the number of drains.
\<close>

record 's reading =
  ret :: "error option"
  hstate :: 's
  handle :: response
  calls :: "bytes list"
  drains :: nat

text \<open>
  The \<open>select\<close> loop of \<open>ReadStreaming\<close> over the events of the reader task. A handler is a
  function of its own state: it returns an error or nil, and its new state.
\<close>

fun select_loop ::
  "('s \<Rightarrow> bytes \<Rightarrow> error option \<times> 's) \<Rightarrow> response \<Rightarrow> 's \<Rightarrow> bytes list \<Rightarrow> event list
     \<Rightarrow> 's reading outcome" where
  "select_loop handler rr s log [] = NoReturn"
| "select_loop handler rr s log (Scanned # evs) = select_loop handler rr s log evs"
| "select_loop handler rr s log (SendData byt # evs) =
     (case handler s byt of
        (Some err, s') \<Rightarrow>
          (case Cancel (rr\<lparr>pending := evs\<rparr>) of
             Returns rr' \<Rightarrow>
               Returns \<lparr>ret = Some err, hstate = s', handle = rr', calls = log @ [byt],
                        drains = 0\<rparr>
           | Panics \<Rightarrow> Panics
           | NoReturn \<Rightarrow> NoReturn)
      | (None, s') \<Rightarrow> select_loop handler rr s' (log @ [byt]) evs)"
| "select_loop handler rr s log (SendErr err # evs) =
     (case Cancel (rr\<lparr>pending := evs\<rparr>) of
        Panics \<Rightarrow> Panics
      | NoReturn \<Rightarrow> NoReturn
      | Returns rr' \<Rightarrow>
          if isOneOf err [io_EOF, context_Canceled, context_DeadlineExceeded] then
            (case drainDataToBytes evs of
               Panics \<Rightarrow> Panics
             | NoReturn \<Rightarrow> NoReturn
             | Returns (byt, derr, evs') \<Rightarrow>
                 (case derr of
                    Some d \<Rightarrow>
                      Returns \<lparr>ret = Some d, hstate = s, handle = rr'\<lparr>pending := evs'\<rparr>,
                               calls = log, drains = 1\<rparr>
                  | None \<Rightarrow>
                      (case handler s byt of
                         (Some herr, s') \<Rightarrow>
                           Returns \<lparr>ret = Some herr, hstate = s',
                                    handle = rr'\<lparr>pending := evs'\<rparr>,
                                    calls = log @ [byt], drains = 1\<rparr>
                       | (None, s') \<Rightarrow>
                           if errors_Is err io_EOF then
                             Returns \<lparr>ret = None, hstate = s',
                                      handle = rr'\<lparr>pending := evs'\<rparr>,
                                      calls = log @ [byt], drains = 1\<rparr>
                           else
                             Returns \<lparr>ret = Some (Wrapf ''reading response body'' err),
                                      hstate = s', handle = rr'\<lparr>pending := evs'\<rparr>,
                                      calls = log @ [byt], drains = 1\<rparr>)))
          else
            Returns \<lparr>ret = Some (Wrapf ''reading response body'' err), hstate = s,
                     handle = rr', calls = log, drains = 0\<rparr>)"
| "select_loop handler rr s log (CloseData # evs) = NoReturn"
| "select_loop handler rr s log (CloseErr # evs) = NoReturn"

definition ReadStreaming ::
  "(nat \<Rightarrow> bool) \<Rightarrow> response \<Rightarrow> ('s \<Rightarrow> bytes \<Rightarrow> error option \<times> 's) \<Rightarrow> 's \<Rightarrow> 's reading outcome" where
  "ReadStreaming ext rr handler s =
     (case Read ext rr of
        Panics \<Rightarrow> Panics
      | NoReturn \<Rightarrow> NoReturn
      | Returns (rr', dCh, eCh) \<Rightarrow> select_loop handler rr' s [] (pending rr'))"

text \<open>
  \<open>ReadAll\<close>: the handler appends to the buffer, which is its state; the result is Go's
  pair (bytes, error), with the handle.
\<close>

definition ReadAll :: "(nat \<Rightarrow> bool) \<Rightarrow> response \<Rightarrow> (bytes \<times> error option \<times> response) outcome" where
  "ReadAll ext rr =
     (let buf = newBuffer
      in case ReadStreaming ext rr (\<lambda>buf byt. case writeToBuffer byt buf of (buf', err) \<Rightarrow> (err, buf')) buf of
           Panics \<Rightarrow> Panics
         | NoReturn \<Rightarrow> NoReturn
         | Returns r \<Rightarrow> Returns (hstate r, ret r, handle r))"

section \<open>Observations on the events of a run\<close>

text \<open>The records sent on the data pipe, in order, and the number of scans.\<close>

fun data_of :: "event list \<Rightarrow> bytes list" where
  "data_of [] = []"
| "data_of (SendData byt # evs) = byt # data_of evs"
| "data_of (ev # evs) = data_of evs"

fun scans_of :: "event list \<Rightarrow> nat" where
  "scans_of [] = 0"
| "scans_of (Scanned # evs) = Suc (scans_of evs)"
| "scans_of (ev # evs) = scans_of evs"

text \<open>A stretch of events before the terminal condition: scans and records only.\<close>

fun records_only :: "event list \<Rightarrow> bool" where
  "records_only [] = True"
| "records_only (Scanned # evs) = records_only evs"
| "records_only (SendData byt # evs) = records_only evs"
| "records_only (ev # evs) = False"

text \<open>
  The handler is given the records one after the other and fails on none of them:
  the state it ends in.
\<close>

fun feeds :: "('s \<Rightarrow> bytes \<Rightarrow> error option \<times> 's) \<Rightarrow> 's \<Rightarrow> bytes list \<Rightarrow> 's option" where
  "feeds handler s [] = Some s"
| "feeds handler s (byt # bs) =
     (case handler s byt of (None, s') \<Rightarrow> feeds handler s' bs | (Some err, s') \<Rightarrow> None)"

text \<open>The filter in the words of the specification: not empty and not the bare delimiter.\<close>

definition keep :: "bytes \<Rightarrow> bool" where
  "keep byt = (byt \<noteq> [] \<and> byt \<noteq> apiDataDelimiter)"

text \<open>
  The units of a body: what \<open>Bytes\<close> holds after each scan, up to and including the scan
  that fails.
\<close>

function scan_units :: "scanner \<Rightarrow> bytes list" where
  "scan_units s = (let (ok, s') = Scan s in if ok then Bytes s' # scan_units s' else [Bytes s'])"
  by pat_completeness auto
termination
  by (relation "measure (\<lambda>s. length (unread s))") (auto dest: Scan_consumes [OF sym])

declare scan_units.simps [simp del]

text \<open>
  The handle \<open>Do\<close> returns for a delivered response, and a delivered response with a given
  body.
\<close>

definition handle_of :: "http_response \<Rightarrow> scope \<Rightarrow> response" where
  "handle_of resp c = nil_response\<lparr>Response := Some resp, Context := Some c, cancelFunc := Some c\<rparr>"

definition ok_body :: "bytes \<Rightarrow> error \<Rightarrow> http_response" where
  "ok_body b e = \<lparr>StatusCode = 200, Body = \<lparr>content = b, ending = e\<rparr>\<rparr>"






text \<open>What a call of \<open>ReadStreaming\<close> returns, invokes and drains, whatever way it ends.\<close>

definition ret_of :: "'s reading outcome \<Rightarrow> error option outcome" where
  "ret_of out = (case out of Returns r \<Rightarrow> Returns (ret r) | Panics \<Rightarrow> Panics | NoReturn \<Rightarrow> NoReturn)"

definition calls_of :: "'s reading outcome \<Rightarrow> bytes list outcome" where
  "calls_of out = (case out of Returns r \<Rightarrow> Returns (calls r) | Panics \<Rightarrow> Panics | NoReturn \<Rightarrow> NoReturn)"

definition drains_of :: "'s reading outcome \<Rightarrow> nat outcome" where
  "drains_of out = (case out of Returns r \<Rightarrow> Returns (drains r) | Panics \<Rightarrow> Panics | NoReturn \<Rightarrow> NoReturn)"

text \<open>The handle as the first \<open>Read\<close> leaves it.\<close>

definition started :: "(nat \<Rightarrow> bool) \<Rightarrow> response \<Rightarrow> http_response \<Rightarrow> response" where
  "started ext rr resp =
     rr\<lparr>dataCh := Some (Chan (2 * tasks rr)), errCh := Some (Chan (2 * tasks rr + 1)),
        tasks := Suc (tasks rr),
        pending := reader_task (\<lambda>i. canceled rr \<or> ext i) 0 (NewScanner (Body resp)),
        once := True\<rparr>"

declare reader_task.simps [simp del]

section \<open>Client construction and dispatch\<close>

text \<open>
  Claim C9. Client construction fails exactly when the base URL does not parse, declares no
  scheme, or has a path other than the empty one or \<open>/\<close>; in every other case it succeeds,
  and the client holds the parsed URL.
\<close>

theorem NewClient_fails_iff:
  "(\<exists>e. NewClient parse opts = Inl e) \<longleftrightarrow>
     ((\<exists>e. parse (OptURL opts) = Inl e)
      \<or> (\<exists>uu. parse (OptURL opts) = Inr uu \<and>
               (Scheme uu = '''' \<or> (Path uu \<noteq> '''' \<and> Path uu \<noteq> ''/''))))"
  by (auto simp: NewClient_def parseServerURL_def Let_def split: sum.splits if_splits)

theorem NewClient_fails_iff_witness:
  "(\<exists>e. NewClient (\<lambda>s. Inr \<lparr>Scheme = ''http'', Host = ''host:8088'', Path = ''/ksql''\<rparr>)
          \<lparr>OptURL = ''http://host:8088/ksql'', OptTrace = None, OptContext = None\<rparr> = Inl e)
   \<and> \<not> (\<exists>e. NewClient (\<lambda>s. Inr \<lparr>Scheme = ''http'', Host = ''host:8088'', Path = ''/''\<rparr>)
          \<lparr>OptURL = ''http://host:8088/'', OptTrace = None, OptContext = None\<rparr> = Inl e)"
  using NewClient_fails_iff
          [of "\<lambda>s. Inr \<lparr>Scheme = ''http'', Host = ''host:8088'', Path = ''/ksql''\<rparr>"
              "\<lparr>OptURL = ''http://host:8088/ksql'', OptTrace = None, OptContext = None\<rparr>"]
        NewClient_fails_iff
          [of "\<lambda>s. Inr \<lparr>Scheme = ''http'', Host = ''host:8088'', Path = ''/''\<rparr>"
              "\<lparr>OptURL = ''http://host:8088/'', OptTrace = None, OptContext = None\<rparr>"]
  by simp

text \<open>
  Claim C8. When the round trip fails, \<open>Do\<close> returns a handle (not nil) in which the
  cancellation trigger is set and every other field is nil or zero, together with the
  transport error wrapped; when the resource cannot build its request, \<open>Do\<close> returns the
  build error wrapped and no handle.
\<close>

theorem Do_failure_results:
  "(resource (serverURL cc) = Inr req
      \<and> roundtrip (WithClientConfig cc (WithCancel (ctx cc)) req) = Inl e
      \<longrightarrow> (\<exists>rr. fst (Do cc resource roundtrip) = Some rr
                \<and> cancelFunc rr = Some (WithCancel (ctx cc))
                \<and> rr = nil_response\<lparr>cancelFunc := cancelFunc rr\<rparr>
                \<and> Response rr = None \<and> Context rr = None)
          \<and> fst (snd (Do cc resource roundtrip)) = Some (Wrapf ''sending ksql request'' e))
   \<and> (resource (serverURL cc) = Inl e
      \<longrightarrow> fst (Do cc resource roundtrip) = None
          \<and> fst (snd (Do cc resource roundtrip)) = Some (Wrapf ''sending ksql request'' e))"
  by (simp add: Do_def Let_def nil_response_def)

theorem Do_failure_results_witness:
  "(\<exists>rr. fst (Do \<lparr>ctx = Background,
                  serverURL = \<lparr>Scheme = ''http'', Host = ''host:8088'', Path = ''''\<rparr>,
                  httpClient = \<lparr>DisableCompression = True\<rparr>, httpTrace = None\<rparr>
               (\<lambda>u. Inr \<lparr>Method = ''POST'', URL = ''http://host:8088/ksql'', Payload = ''{}'',
                          ReqContext = None, ReqTraced = False\<rparr>)
               (\<lambda>r. Inl (Errorf ''connection refused''))) = Some rr
         \<and> cancelFunc rr = Some (WithCancel Background)
         \<and> Response rr = None \<and> Context rr = None)
   \<and> fst (Do \<lparr>ctx = Background,
               serverURL = \<lparr>Scheme = ''http'', Host = ''host:8088'', Path = ''''\<rparr>,
               httpClient = \<lparr>DisableCompression = True\<rparr>, httpTrace = None\<rparr>
            (\<lambda>u. Inl (Errorf ''json: unsupported value''))
            (\<lambda>r. Inl (Errorf ''connection refused''))) = None"
  using Do_failure_results
          [of "\<lambda>u. Inr \<lparr>Method = ''POST'', URL = ''http://host:8088/ksql'', Payload = ''{}'',
                          ReqContext = None, ReqTraced = False\<rparr>"
              "\<lparr>ctx = Background,
                serverURL = \<lparr>Scheme = ''http'', Host = ''host:8088'', Path = ''''\<rparr>,
                httpClient = \<lparr>DisableCompression = True\<rparr>, httpTrace = None\<rparr>"
              "\<lparr>Method = ''POST'', URL = ''http://host:8088/ksql'', Payload = ''{}'',
                          ReqContext = None, ReqTraced = False\<rparr>"
              "\<lambda>r. Inl (Errorf ''connection refused'')"
              "Errorf ''connection refused''"]
        Do_failure_results
          [of "\<lambda>u. Inl (Errorf ''json: unsupported value'')"
              "\<lparr>ctx = Background,
                serverURL = \<lparr>Scheme = ''http'', Host = ''host:8088'', Path = ''''\<rparr>,
                httpClient = \<lparr>DisableCompression = True\<rparr>, httpTrace = None\<rparr>"
              _
              "\<lambda>r. Inl (Errorf ''connection refused'')"
              "Errorf ''json: unsupported value''"]
  by (auto simp: WithClientConfig_def)

section \<open>The events of the reader task\<close>

lemma data_of_append: "data_of (xs @ ys) = data_of xs @ data_of ys"
  by (induction xs rule: data_of.induct) simp_all

lemma scans_of_append: "scans_of (xs @ ys) = scans_of xs + scans_of ys"
  by (induction xs rule: scans_of.induct) simp_all

lemma records_only_append: "records_only (xs @ ys) = (records_only xs \<and> records_only ys)"
  by (induction xs rule: records_only.induct) simp_all

lemma filterSend_keep: "filterSendDataChannel byt = map SendData (filter keep [byt])"
  by (simp add: filterSendDataChannel_def keep_def)

lemma data_of_SendData: "data_of (map SendData bs) = bs"
  by (induction bs) simp_all

lemma records_only_SendData: "records_only (map SendData bs)"
  by (induction bs) simp_all

lemma scans_of_SendData: "scans_of (map SendData bs) = 0"
  by (induction bs) simp_all

lemma feeds_append:
  "feeds h s (xs @ ys) = (case feeds h s xs of None \<Rightarrow> None | Some s' \<Rightarrow> feeds h s' ys)"
  by (induction xs arbitrary: s) (auto split: prod.splits option.splits)

lemma select_loop_records:
  "records_only pre \<Longrightarrow> feeds h s (data_of pre) = Some s' \<Longrightarrow>
   select_loop h rr s log (pre @ rest) = select_loop h rr s' (log @ data_of pre) rest"
proof (induction pre arbitrary: s log rule: records_only.induct)
  case 1
  then show ?case by simp
next
  case (2 evs)
  then show ?case by simp
next
  case (3 byt evs)
  then show ?case by (auto split: prod.splits option.splits)
qed simp_all

lemma drain_loop_records:
  "drain_loop buf None (map SendData fs @ CloseData # rest) = Returns (buf @ concat fs, None, rest)"
  by (induction fs arbitrary: buf) (simp_all add: writeToBuffer_def Buffer_Write_def)

lemma reader_task_shape:
  "\<exists>pre e fs. reader_task d i s = pre @ SendErr e # map SendData fs @ [CloseData, CloseErr]
     \<and> records_only pre"
proof (induction d i s rule: reader_task.induct)
  case (1 d i s)
  show ?case
  proof (cases "d i")
    case True
    then have "reader_task d i s = [] @ SendErr context_Canceled # map SendData [] @ [CloseData, CloseErr]"
      by (simp add: reader_task.simps)
    then show ?thesis by (metis records_only.simps(1))
  next
    case False
    obtain ok s' where sc: "Scan s = (ok, s')" by (cases "Scan s")
    show ?thesis
    proof (cases ok)
      case True
      from "1.IH" [OF False sc [symmetric] refl] True
      obtain pre e fs where
        ih: "reader_task d (Suc i) s' = pre @ SendErr e # map SendData fs @ [CloseData, CloseErr]"
          "records_only pre" by auto
      have "reader_task d i s = (Scanned # filterSendDataChannel (Bytes s') @ pre)
              @ SendErr e # map SendData fs @ [CloseData, CloseErr]"
        using False sc True ih by (simp add: reader_task.simps)
      moreover have "records_only (Scanned # filterSendDataChannel (Bytes s') @ pre)"
        using ih by (simp add: records_only_append filterSend_keep records_only_SendData)
      ultimately show ?thesis by blast
    next
      case False2: False
      have "reader_task d i s = [Scanned]
              @ SendErr (case Err s' of None \<Rightarrow> io_EOF | Some err \<Rightarrow> err)
                # map SendData (filter keep [Bytes s']) @ [CloseData, CloseErr]"
        using False sc False2 by (simp add: reader_task.simps filterSend_keep)
      moreover have "records_only [Scanned]" by simp
      ultimately show ?thesis by blast
    qed
  qed
qed

lemma scan_units_ok: "Scan s = (True, s') \<Longrightarrow> scan_units s = Bytes s' # scan_units s'"
  by (subst scan_units.simps) simp

lemma scan_units_end: "Scan s = (False, s') \<Longrightarrow> scan_units s = [Bytes s']"
  by (subst scan_units.simps) simp

lemma reader_task_canceled: "d i \<Longrightarrow> reader_task d i s = [SendErr context_Canceled, CloseData, CloseErr]"
  by (simp add: reader_task.simps)

lemma reader_task_ok:
  "\<not> d i \<Longrightarrow> Scan s = (True, s') \<Longrightarrow>
   reader_task d i s = Scanned # filterSendDataChannel (Bytes s') @ reader_task d (Suc i) s'"
  by (subst reader_task.simps) simp




lemma reader_task_cancel_at:
  "\<forall>j<k. \<not> d (i + j) \<Longrightarrow> d (i + k) \<Longrightarrow> k < length (scan_units s) \<Longrightarrow>
   \<exists>pre. reader_task d i s = pre @ [SendErr context_Canceled, CloseData, CloseErr]
     \<and> records_only pre \<and> scans_of pre = k
     \<and> data_of pre = filter keep (take k (scan_units s))"
proof (induction k arbitrary: i s)
  case 0
  then have "reader_task d i s = [] @ [SendErr context_Canceled, CloseData, CloseErr]"
    by (simp add: reader_task_canceled)
  then show ?case by force
next
  case (Suc k)
  from Suc.prems(1) have nd: "\<not> d i" by force
  obtain ok s' where sc: "Scan s = (ok, s')" by (cases "Scan s")
  have ok: ok
  proof (rule ccontr)
    assume "\<not> ok"
    then have "scan_units s = [Bytes s']" using sc by (simp add: scan_units_end)
    then show False using Suc.prems(3) by simp
  qed
  have a: "\<forall>j<k. \<not> d (Suc i + j)" using Suc.prems(1) by auto
  have b: "d (Suc i + k)" using Suc.prems(2) by simp
  have c: "k < length (scan_units s')" using Suc.prems(3) sc ok by (simp add: scan_units_ok)
  from Suc.IH [OF a b c] obtain pre where
    ih: "reader_task d (Suc i) s' = pre @ [SendErr context_Canceled, CloseData, CloseErr]"
      "records_only pre" "scans_of pre = k" "data_of pre = filter keep (take k (scan_units s'))"
    by blast
  let ?pre = "Scanned # filterSendDataChannel (Bytes s') @ pre"
  have "reader_task d i s = ?pre @ [SendErr context_Canceled, CloseData, CloseErr]"
    using nd sc ok ih(1) by (simp add: reader_task_ok)
  moreover have "records_only ?pre"
    using ih(2) by (simp add: records_only_append filterSend_keep records_only_SendData)
  moreover have "scans_of ?pre = Suc k"
    using ih(3) by (simp add: scans_of_append filterSend_keep scans_of_SendData)
  moreover have "data_of ?pre = filter keep (take (Suc k) (scan_units s))"
    using ih(4) sc ok by (simp add: data_of_append filterSend_keep data_of_SendData scan_units_ok)
  ultimately show ?case by blast
qed



section \<open>What the reader task publishes\<close>

lemmas scan_eval = NewScanner_def Scan_def Let_def MaxScanTokenSize_def dropCR_def Bytes_def
  Err_def filterSendDataChannel_def apiDataDelimiter_def keep_def



section \<open>Consuming the events\<close>

lemmas handle_eval = handle_of_def ok_body_def nil_response_def

lemma Read_live:
  "Response rr = Some resp \<Longrightarrow> Context rr = Some c \<Longrightarrow> \<not> once rr \<Longrightarrow>
   Read ext rr = Returns (started ext rr resp, Some (Chan (2 * tasks rr)), Some (Chan (2 * tasks rr + 1)))"
  by (simp add: Read_def initAsyncRead_def Let_def started_def)

lemma ReadStreaming_live:
  "Response rr = Some resp \<Longrightarrow> Context rr = Some c \<Longrightarrow> \<not> once rr \<Longrightarrow>
   ReadStreaming ext rr h s =
     select_loop h (started ext rr resp) s []
       (reader_task (\<lambda>i. canceled rr \<or> ext i) 0 (NewScanner (Body resp)))"
  by (simp add: ReadStreaming_def Read_live) (simp add: started_def)

lemma select_loop_handler_fails:
  assumes "cancelFunc rr = Some cf" "records_only pre" "feeds h s (data_of pre) = Some s1"
    "h s1 byt = (Some e, s2)"
  shows "select_loop h rr s log (pre @ SendData byt # rest) =
     Returns \<lparr>ret = Some e, hstate = s2, handle = rr\<lparr>pending := rest, canceled := True\<rparr>,
              calls = log @ data_of pre @ [byt], drains = 0\<rparr>"
  using assms by (simp add: select_loop_records Cancel_def)

lemma select_loop_terminal:
  assumes "cancelFunc rr = Some cf" "records_only pre" "feeds h s (data_of pre) = Some s1"
  shows "select_loop h rr s log (pre @ SendErr err # map SendData fs @ [CloseData, CloseErr]) =
     (if isOneOf err [io_EOF, context_Canceled, context_DeadlineExceeded] then
        Returns \<lparr>ret = (case fst (h s1 (newBuffer @ concat fs)) of
                         Some herr \<Rightarrow> Some herr
                       | None \<Rightarrow> if errors_Is err io_EOF then None
                                 else Some (Wrapf ''reading response body'' err)),
                 hstate = snd (h s1 (newBuffer @ concat fs)),
                 handle = rr\<lparr>pending := [CloseErr], canceled := True\<rparr>,
                 calls = log @ data_of pre @ [newBuffer @ concat fs], drains = 1\<rparr>
      else
        Returns \<lparr>ret = Some (Wrapf ''reading response body'' err), hstate = s1,
                 handle = rr\<lparr>pending := map SendData fs @ [CloseData, CloseErr], canceled := True\<rparr>,
                 calls = log @ data_of pre, drains = 0\<rparr>)"
proof -
  have d: "drainDataToBytes (map SendData fs @ [CloseData, CloseErr])
             = Returns (newBuffer @ concat fs, None, [CloseErr])"
    unfolding drainDataToBytes_def using drain_loop_records [of newBuffer fs "[CloseErr]"] by simp
  show ?thesis
    using assms
    by (simp add: select_loop_records Cancel_def d split: prod.splits option.splits)
qed

text \<open>On a handle with a response, a scope and a cancel function, \<open>ReadStreaming\<close> always returns.\<close>

lemma select_loop_returns:
  "cancelFunc rr = Some cf \<Longrightarrow> records_only pre \<Longrightarrow>
   \<exists>r. select_loop h rr s log (pre @ SendErr e # map SendData fs @ [CloseData, CloseErr]) = Returns r"
proof (induction pre arbitrary: s log rule: records_only.induct)
  case 1
  have d: "drainDataToBytes (map SendData fs @ [CloseData, CloseErr])
             = Returns (newBuffer @ concat fs, None, [CloseErr])"
    unfolding drainDataToBytes_def using drain_loop_records [of newBuffer fs "[CloseErr]"] by simp
  from 1 show ?case
    by (cases "h s (newBuffer @ concat fs)") (auto simp: Cancel_def d split: option.splits)
next
  case (2 evs)
  then show ?case by simp
next
  case (3 byt evs)
  then show ?case
    by (cases "h s byt") (auto simp: Cancel_def split: option.splits)
qed simp_all

lemma ReadStreaming_returns:
  assumes "Response rr = Some resp" "Context rr = Some c" "cancelFunc rr = Some cf" "\<not> once rr"
  shows "\<exists>r. ReadStreaming ext rr h s = Returns r"
proof -
  obtain pre e fs where
    sh: "reader_task (\<lambda>i. canceled rr \<or> ext i) 0 (NewScanner (Body resp))
           = pre @ SendErr e # map SendData fs @ [CloseData, CloseErr]"
      "records_only pre"
    using reader_task_shape by blast
  have cf: "cancelFunc (started ext rr resp) = Some cf" by (simp add: started_def assms(3))
  show ?thesis
    unfolding ReadStreaming_live [OF assms(1,2,4)] sh(1)
    by (rule select_loop_returns [OF cf sh(2)])
qed

lemma newBuffer_length: "length newBuffer = 512"
  by (simp add: newBuffer_def bytes_MinRead_def)

lemma newBuffer_neq: "length byt < 512 \<Longrightarrow> newBuffer \<noteq> byt"
  using newBuffer_length by auto

section \<open>A failing handler\<close>

text \<open>
  Claim C5. The reader task's events are \<open>pre\<close>, then the record \<open>byt\<close>, then \<open>rest\<close>; the
  handler accepts every record of \<open>pre\<close> and fails on \<open>byt\<close> with \<open>e\<close>. Then \<open>ReadStreaming\<close>
  returns exactly \<open>e\<close>, the handle's scope is canceled, the handler has been invoked on the
  records of \<open>pre\<close> and on \<open>byt\<close> and on nothing after it, no drain has run, and nothing
  after \<open>byt\<close> has been received from the pipes.
\<close>

theorem ReadStreaming_handler_error:
  assumes "Response rr = Some resp" "Context rr = Some c" "cancelFunc rr = Some cf" "\<not> once rr"
    and "reader_task (\<lambda>i. canceled rr \<or> ext i) 0 (NewScanner (Body resp)) = pre @ SendData byt # rest"
    and "records_only pre"
    and "feeds handler s (data_of pre) = Some s1"
    and "handler s1 byt = (Some e, s2)"
  shows "\<exists>r. ReadStreaming ext rr handler s = Returns r
     \<and> ret r = Some e \<and> canceled (handle r)
     \<and> calls r = data_of pre @ [byt] \<and> drains r = 0 \<and> pending (handle r) = rest"
  using assms
  by (simp add: ReadStreaming_live [OF assms(1,2,4)]
      select_loop_handler_fails [where cf = cf and ?s1.0 = s1 and e = e and ?s2.0 = s2]
      started_def)

theorem ReadStreaming_handler_error_witness:
  "\<exists>r. ReadStreaming (\<lambda>i. False)
          (handle_of (ok_body ''a\<newline>b\<newline>c\<newline>'' io_EOF) (WithCancel Background))
          (\<lambda>s byt. (if byt = ''b'' then Some (Errorf ''stop'') else None, s)) () = Returns r
     \<and> ret r = Some (Errorf ''stop'') \<and> canceled (handle r)
     \<and> calls r = [''a'', ''b''] \<and> drains r = 0
     \<and> pending (handle r) = [Scanned, SendData ''c'', Scanned, SendErr io_EOF, CloseData, CloseErr]"
  using ReadStreaming_handler_error
    [of "handle_of (ok_body ''a\<newline>b\<newline>c\<newline>'' io_EOF) (WithCancel Background)"
        "ok_body ''a\<newline>b\<newline>c\<newline>'' io_EOF" "WithCancel Background" "WithCancel Background"
        "\<lambda>i. False" "[Scanned, SendData ''a'', Scanned]" "''b''"
        "[Scanned, SendData ''c'', Scanned, SendErr io_EOF, CloseData, CloseErr]"
        "\<lambda>s byt. (if byt = ''b'' then Some (Errorf ''stop'') else None, s)" "()" "()"
        "Errorf ''stop''" "()"]
  by (simp add: handle_eval reader_task.simps scan_eval)

section \<open>The terminal condition\<close>

text \<open>
  Claim C2, as the code has it. The reader task's events are \<open>pre\<close>, then the terminal
  condition \<open>err\<close>, then the records \<open>fs\<close> and the two closes; the handler accepts every
  record of \<open>pre\<close>. \<open>ReadStreaming\<close> cancels the handle and classifies \<open>err\<close>.
  End of stream: it drains, invokes the handler once on the drained bytes and returns what
  that invocation returns, nil when the handler accepts them.
  Cancellation or deadline: it drains, invokes the handler once on the drained bytes and
  returns the error of that invocation if it fails, the condition wrapped otherwise.
  Any other error: it returns the condition wrapped, with no drain and no further
  invocation of the handler.
\<close>

theorem ReadStreaming_terminal_condition:
  assumes "Response rr = Some resp" "Context rr = Some c" "cancelFunc rr = Some cf" "\<not> once rr"
    and "reader_task (\<lambda>i. canceled rr \<or> ext i) 0 (NewScanner (Body resp))
           = pre @ SendErr err # map SendData fs @ [CloseData, CloseErr]"
    and "records_only pre"
    and "feeds handler s (data_of pre) = Some s1"
  shows "\<exists>r. ReadStreaming ext rr handler s = Returns r \<and> canceled (handle r)
     \<and> (errors_Is err io_EOF \<longrightarrow>
            drains r = 1 \<and> calls r = data_of pre @ [newBuffer @ concat fs]
            \<and> ret r = fst (handler s1 (newBuffer @ concat fs)))
     \<and> (\<not> errors_Is err io_EOF
          \<and> (errors_Is err context_Canceled \<or> errors_Is err context_DeadlineExceeded) \<longrightarrow>
            drains r = 1 \<and> calls r = data_of pre @ [newBuffer @ concat fs]
            \<and> ret r = (case fst (handler s1 (newBuffer @ concat fs)) of
                         Some herr \<Rightarrow> Some herr
                       | None \<Rightarrow> Some (Wrapf ''reading response body'' err)))
     \<and> (\<not> errors_Is err io_EOF \<and> \<not> errors_Is err context_Canceled
          \<and> \<not> errors_Is err context_DeadlineExceeded \<longrightarrow>
            drains r = 0 \<and> calls r = data_of pre
            \<and> ret r = Some (Wrapf ''reading response body'' err))"
  using assms(5-)
  by (simp add: ReadStreaming_live [OF assms(1,2,4)] started_def assms(3)
      select_loop_terminal [where cf = cf and ?s1.0 = s1]
      split: option.splits)

theorem ReadStreaming_terminal_condition_witness:
  "(\<exists>r. ReadStreaming (\<lambda>i. False) (handle_of (ok_body ''a\<newline>'' io_EOF) (WithCancel Background))
          (\<lambda>s byt. (None, s)) () = Returns r
       \<and> drains r = 1 \<and> calls r = [''a'', newBuffer] \<and> ret r = None)
   \<and> (\<exists>r. ReadStreaming (\<lambda>i. False)
          (handle_of (ok_body ''a\<newline>'' context_DeadlineExceeded) (WithCancel Background))
          (\<lambda>s byt. (None, s)) () = Returns r
       \<and> drains r = 1 \<and> calls r = [''a'', newBuffer]
       \<and> ret r = Some (Wrapf ''reading response body'' context_DeadlineExceeded))
   \<and> (\<exists>r. ReadStreaming (\<lambda>i. False)
          (handle_of (ok_body ''a\<newline>'' (Errorf ''connection reset'')) (WithCancel Background))
          (\<lambda>s byt. (None, s)) () = Returns r
       \<and> drains r = 0 \<and> calls r = [''a'']
       \<and> ret r = Some (Wrapf ''reading response body'' (Errorf ''connection reset'')))"
  using ReadStreaming_terminal_condition
    [of "handle_of (ok_body ''a\<newline>'' io_EOF) (WithCancel Background)"
        "ok_body ''a\<newline>'' io_EOF" "WithCancel Background" "WithCancel Background"
        "\<lambda>i. False" "[Scanned, SendData ''a'', Scanned]" io_EOF "[]"
        "\<lambda>s byt. (None, s)" "()" "()"]
    ReadStreaming_terminal_condition
    [of "handle_of (ok_body ''a\<newline>'' context_DeadlineExceeded) (WithCancel Background)"
        "ok_body ''a\<newline>'' context_DeadlineExceeded" "WithCancel Background" "WithCancel Background"
        "\<lambda>i. False" "[Scanned, SendData ''a'', Scanned]" context_DeadlineExceeded "[]"
        "\<lambda>s byt. (None, s)" "()" "()"]
    ReadStreaming_terminal_condition
    [of "handle_of (ok_body ''a\<newline>'' (Errorf ''connection reset'')) (WithCancel Background)"
        "ok_body ''a\<newline>'' (Errorf ''connection reset'')" "WithCancel Background" "WithCancel Background"
        "\<lambda>i. False" "[Scanned, SendData ''a'', Scanned]" "Errorf ''connection reset''" "[]"
        "\<lambda>s byt. (None, s)" "()" "()"]
  by (auto simp add: handle_eval reader_task.simps scan_eval)

text \<open>
  The claim as it was stated has success for every end of stream. On the empty body, with
  a handler that fails, the condition is the end of stream and the call returns the
  handler's error.
\<close>

theorem ReadStreaming_end_of_stream_handler_error:
  "reader_task (\<lambda>i. False) 0 (NewScanner (Body (ok_body '''' io_EOF)))
     = [Scanned, SendErr io_EOF, CloseData, CloseErr]
   \<and> ret_of (ReadStreaming (\<lambda>i. False) (handle_of (ok_body '''' io_EOF) (WithCancel Background))
        (\<lambda>s byt. (Some (Errorf ''stop''), s)) ()) = Returns (Some (Errorf ''stop''))
   \<and> drains_of (ReadStreaming (\<lambda>i. False) (handle_of (ok_body '''' io_EOF) (WithCancel Background))
        (\<lambda>s byt. (Some (Errorf ''stop''), s)) ()) = Returns 1"
  by (simp add: ReadStreaming_def Read_def initAsyncRead_def handle_eval reader_task.simps scan_eval
      Cancel_def drainDataToBytes_def ret_of_def drains_of_def)

section \<open>Cancellation\<close>

text \<open>
  Claim C6, as the code has it. At every iteration of the reader task's loop, a scope found
  canceled makes the task send \<open>Canceled\<close> on the error pipe, close both pipes and end, with
  no scan. When the scope is first found canceled at check \<open>k\<close>, while the body still has
  units, the task has scanned \<open>k\<close> times and not once more; \<open>ReadStreaming\<close>, whose handler
  accepted the records so far, then drains exactly once, invokes the handler exactly once
  on the drained bytes, and returns the cancellation error wrapped, or the error of that
  last invocation if it fails.
\<close>

theorem cancellation_observed:
  assumes "Response rr = Some resp" "Context rr = Some c" "cancelFunc rr = Some cf" "\<not> once rr"
    and "\<forall>j<k. \<not> (canceled rr \<or> ext j)"
    and "canceled rr \<or> ext k"
    and "k < length (scan_units (NewScanner (Body resp)))"
    and "feeds handler s (filter keep (take k (scan_units (NewScanner (Body resp))))) = Some s1"
  shows "(\<forall>d i sc. d i \<longrightarrow> reader_task d i sc = [SendErr context_Canceled, CloseData, CloseErr])
     \<and> scans_of (reader_task (\<lambda>i. canceled rr \<or> ext i) 0 (NewScanner (Body resp))) = k
     \<and> (\<exists>r. ReadStreaming ext rr handler s = Returns r \<and> canceled (handle r)
           \<and> drains r = 1
           \<and> calls r = filter keep (take k (scan_units (NewScanner (Body resp)))) @ [newBuffer]
           \<and> ret r = (case fst (handler s1 newBuffer) of
                        Some herr \<Rightarrow> Some herr
                      | None \<Rightarrow> Some (Wrapf ''reading response body'' context_Canceled)))"
proof -
  let ?d = "\<lambda>i. canceled rr \<or> ext i"
  let ?sc = "NewScanner (Body resp)"
  have a: "\<forall>j<k. \<not> ?d (0 + j)" using assms(5) by simp
  have b: "?d (0 + k)" using assms(6) by simp
  from reader_task_cancel_at [of k ?d 0 ?sc, OF a b assms(7)] obtain pre where
    pre: "reader_task ?d 0 ?sc = pre @ [SendErr context_Canceled, CloseData, CloseErr]"
      "records_only pre" "scans_of pre = k"
      "data_of pre = filter keep (take k (scan_units ?sc))"
    by blast
  have f: "feeds handler s (data_of pre) = Some s1" using assms(8) pre(4) by simp
  have 1: "\<forall>d i sc. d i \<longrightarrow> reader_task d i sc = [SendErr context_Canceled, CloseData, CloseErr]"
    by (simp add: reader_task_canceled)
  have 2: "scans_of (reader_task ?d 0 ?sc) = k"
    using pre(1,3) by (simp add: scans_of_append)
  have 3: "\<exists>r. ReadStreaming ext rr handler s = Returns r \<and> canceled (handle r)
           \<and> drains r = 1
           \<and> calls r = filter keep (take k (scan_units ?sc)) @ [newBuffer]
           \<and> ret r = (case fst (handler s1 newBuffer) of
                        Some herr \<Rightarrow> Some herr
                      | None \<Rightarrow> Some (Wrapf ''reading response body'' context_Canceled))"
    unfolding ReadStreaming_live [OF assms(1,2,4)] pre(1)
    using pre(2,4) f
    by (simp add: started_def assms(3)
        select_loop_terminal [where cf = cf and ?s1.0 = s1 and fs = "[]", simplified])
  from 1 2 3 show ?thesis by blast
qed

theorem cancellation_observed_witness:
  "scans_of (reader_task (\<lambda>i. 1 \<le> i) 0 (NewScanner (Body (ok_body ''a\<newline>b\<newline>c\<newline>'' io_EOF)))) = 1
   \<and> (\<exists>r. ReadStreaming (\<lambda>i. 1 \<le> i)
          (handle_of (ok_body ''a\<newline>b\<newline>c\<newline>'' io_EOF) (WithCancel Background))
          (\<lambda>s byt. (None, s)) () = Returns r
       \<and> canceled (handle r) \<and> drains r = 1 \<and> calls r = [''a'', newBuffer]
       \<and> ret r = Some (Wrapf ''reading response body'' context_Canceled))"
  using cancellation_observed
    [of "handle_of (ok_body ''a\<newline>b\<newline>c\<newline>'' io_EOF) (WithCancel Background)"
        "ok_body ''a\<newline>b\<newline>c\<newline>'' io_EOF" "WithCancel Background" "WithCancel Background"
        1 "\<lambda>i. 1 \<le> i" "\<lambda>s byt. (None, s)" "()" "()"]
  by (auto simp add: handle_eval scan_units.simps scan_eval)

text \<open>
  The claim as it was stated returns the cancellation error after the flush. With a handler
  that fails on the flushed bytes, the call returns the handler's error.
\<close>

theorem cancellation_flush_handler_error:
  "reader_task (\<lambda>i. 1 \<le> i) 0 (NewScanner (Body (ok_body ''a\<newline>b\<newline>'' io_EOF)))
     = [Scanned, SendData ''a'', SendErr context_Canceled, CloseData, CloseErr]
   \<and> calls_of (ReadStreaming (\<lambda>i. 1 \<le> i)
        (handle_of (ok_body ''a\<newline>b\<newline>'' io_EOF) (WithCancel Background))
        (\<lambda>s byt. (if byt = ''a'' then None else Some (Errorf ''stop''), s)) ())
       = Returns [''a'', newBuffer]
   \<and> ret_of (ReadStreaming (\<lambda>i. 1 \<le> i)
        (handle_of (ok_body ''a\<newline>b\<newline>'' io_EOF) (WithCancel Background))
        (\<lambda>s byt. (if byt = ''a'' then None else Some (Errorf ''stop''), s)) ())
       = Returns (Some (Errorf ''stop''))"
  by (simp add: ReadStreaming_def Read_def initAsyncRead_def handle_eval reader_task.simps scan_eval
      Cancel_def drainDataToBytes_def ret_of_def calls_of_def newBuffer_neq)

section \<open>One reader task\<close>






section \<open>The handle of a failed exchange\<close>

text \<open>
  Claim C10. On the handle that \<open>Do\<close> returns together with an error, \<open>Cancel\<close> returns
  (and cancels the scope), while \<open>Read\<close>, \<open>ReadStreaming\<close> and \<open>ReadAll\<close> panic: the first
  thing \<open>initAsyncRead\<close> does after making the pipes is to read the body of the nil
  response.
\<close>

theorem failed_exchange_handle:
  assumes "Do cc resource roundtrip = (Some rr, Some e, hooks)"
  shows "Cancel rr = Returns (rr\<lparr>canceled := True\<rparr>)
     \<and> Read ext rr = Panics
     \<and> ReadStreaming ext rr handler s = Panics
     \<and> ReadAll ext rr = Panics"
proof -
  have rr: "rr = nil_response\<lparr>cancelFunc := Some (WithCancel (ctx cc))\<rparr>"
    using assms by (auto simp: Do_def Let_def split: sum.splits)
  have r: "Read ext rr = Panics" for ext
    by (simp add: rr Read_def initAsyncRead_def Let_def nil_response_def)
  show ?thesis
    by (simp add: r ReadStreaming_def ReadAll_def Let_def) (simp add: rr Cancel_def nil_response_def)
qed

theorem failed_exchange_handle_witness:
  "(\<exists>rr. fst (Do \<lparr>ctx = Background,
                  serverURL = \<lparr>Scheme = ''http'', Host = ''host:8088'', Path = ''''\<rparr>,
                  httpClient = \<lparr>DisableCompression = True\<rparr>, httpTrace = None\<rparr>
               (\<lambda>u. Inr \<lparr>Method = ''POST'', URL = ''http://host:8088/ksql'', Payload = ''{}'',
                          ReqContext = None, ReqTraced = False\<rparr>)
               (\<lambda>r. Inl (Errorf ''connection refused''))) = Some rr
      \<and> Cancel rr = Returns (rr\<lparr>canceled := True\<rparr>)
      \<and> Read (\<lambda>i. False) rr = Panics
      \<and> ReadStreaming (\<lambda>i. False) rr (\<lambda>s byt. (None, s)) () = Panics
      \<and> ReadAll (\<lambda>i. False) rr = Panics)"
  using failed_exchange_handle
    [of "\<lparr>ctx = Background,
          serverURL = \<lparr>Scheme = ''http'', Host = ''host:8088'', Path = ''''\<rparr>,
          httpClient = \<lparr>DisableCompression = True\<rparr>, httpTrace = None\<rparr>"
        "\<lambda>u. Inr \<lparr>Method = ''POST'', URL = ''http://host:8088/ksql'', Payload = ''{}'',
                          ReqContext = None, ReqTraced = False\<rparr>"
        "\<lambda>r. Inl (Errorf ''connection refused'')"
        "nil_response\<lparr>cancelFunc := Some (WithCancel Background)\<rparr>"
        "Wrapf ''sending ksql request'' (Errorf ''connection refused'')" "[]"
        "\<lambda>i. False" "\<lambda>s byt. (None, s)" "()"]
  by (simp add: Do_def Let_def)

section \<open>The lines of the body\<close>











section \<open>A clean end of stream\<close>




section \<open>The whole body at once\<close>

text \<open>
  Claim C1 at its two bodies. \<open>ReadAll\<close> returns the records of the body between two runs
  of 512 zero bytes: the initial contents of its own buffer and of the buffer of the drain.
\<close>

theorem ReadAll_zero_bytes:
  "(\<exists>rr'. ReadAll (\<lambda>i. False)
        (handle_of (ok_body ''a\<newline>b\<newline>c\<newline>'' io_EOF) (WithCancel Background))
      = Returns (newBuffer @ ''abc'' @ newBuffer, None, rr'))
   \<and> (\<exists>rr'. ReadAll (\<lambda>i. False) (handle_of (ok_body '''' io_EOF) (WithCancel Background))
      = Returns (newBuffer @ newBuffer, None, rr'))
   \<and> newBuffer = replicate 512 (CHR 0x00)
   \<and> length (newBuffer @ ''abc'' @ newBuffer) = 1027
   \<and> length (newBuffer @ newBuffer) = 1024"
proof -
  have a: "\<exists>rr'. ReadAll (\<lambda>i. False)
        (handle_of (ok_body ''a\<newline>b\<newline>c\<newline>'' io_EOF) (WithCancel Background))
      = Returns (newBuffer @ ''abc'' @ newBuffer, None, rr')"
    by (simp add: ReadAll_def ReadStreaming_def Read_def initAsyncRead_def handle_eval
        reader_task.simps scan_eval Cancel_def drainDataToBytes_def writeToBuffer_def
        Buffer_Write_def)
  have b: "\<exists>rr'. ReadAll (\<lambda>i. False) (handle_of (ok_body '''' io_EOF) (WithCancel Background))
      = Returns (newBuffer @ newBuffer, None, rr')"
    by (simp add: ReadAll_def ReadStreaming_def Read_def initAsyncRead_def handle_eval
        reader_task.simps scan_eval Cancel_def drainDataToBytes_def writeToBuffer_def
        Buffer_Write_def)
  have c: "newBuffer = replicate 512 (CHR 0x00)"
    by (simp add: newBuffer_def bytes_MinRead_def)
  have d: "length (newBuffer @ ''abc'' @ newBuffer) = 1027"
    and e: "length (newBuffer @ newBuffer) = 1024"
    by (simp_all add: newBuffer_length)
  from a b c d e show ?thesis by blast
qed

end
